theory Spec2Isabelle
  imports Complex_Main "HOL-Library.Log_Nat" "HOL-Library.Multiset" "HOL-Library.Monad_Syntax"
begin

section \<open>JavaScript numbers\<close>

text \<open>
  Every numeric field and local of the TypeScript source is a JavaScript \<open>number\<close>, an
  IEEE-754 binary64 value. Several properties of the layout engine depend on how results
  are rounded, so the arithmetic is modelled with its rounding written out rather than
  over the reals.

  A finite value is \<open>Fin m e\<close>, standing for \<open>m * 2 ^ e\<close>. Values produced by the
  operations below are in canonical form: \<open>e\<close> lies between \<open>-1074\<close> and \<open>971\<close>, the
  mantissa satisfies \<open>\<bar>m\<bar> < 2 ^ 53\<close>, and \<open>2 ^ 52 \<le> \<bar>m\<bar>\<close> unless \<open>e = -1074\<close>
  (subnormal values and zero). The two zeros of binary64 are identified: they are equal
  under \<open>===\<close> and both falsy, and the functions modelled here cannot tell them apart,
  since none of them divides by a zero.
\<close>

datatype number = Fin int int | PosInf | NegInf | NaN

text \<open>Dropping the low \<open>s\<close> bits of a non-negative integer, to nearest, ties to even.\<close>

definition shift_round :: "int \<Rightarrow> nat \<Rightarrow> int" where
  "shift_round a s =
     (if s = 0 then a
      else (let q = a div 2 ^ s; r = a mod 2 ^ s; h = 2 ^ (s - 1)
            in if h < r \<or> (r = h \<and> odd q) then q + 1 else q))"

text \<open>
  \<open>to_number M E\<close> is the binary64 value nearest to the exact quantity \<open>M * 2 ^ E\<close>:
  53 significant bits, gradual underflow below \<open>2 ^ -1022\<close>, overflow to an infinity.
\<close>

definition to_number :: "int \<Rightarrow> int \<Rightarrow> number" where
  "to_number M E =
     (if M = 0 then Fin 0 (- 1074)
      else (let a = \<bar>M\<bar>;
                e = max (E + bitlen a - 53) (- 1074);
                q = (if e \<le> E then a * 2 ^ nat (E - e) else shift_round a (nat (e - E)));
                e' = (if q = 2 ^ 53 then e + 1 else e);
                q' = (if q = 2 ^ 53 then 2 ^ 52 else q)
            in if 971 < e' then (if 0 < M then PosInf else NegInf)
               else if q' = 0 then Fin 0 (- 1074)
               else Fin (sgn M * q') e'))"

text \<open>Integer literals and the conversion of whole numbers.\<close>

definition num :: "int \<Rightarrow> number" where
  "num k = to_number k 0"

fun fneg :: "number \<Rightarrow> number" where
  "fneg (Fin m e) = Fin (- m) e"
| "fneg PosInf = NegInf"
| "fneg NegInf = PosInf"
| "fneg NaN = NaN"

fun fabs :: "number \<Rightarrow> number" where
  "fabs (Fin m e) = Fin \<bar>m\<bar> e"
| "fabs PosInf = PosInf"
| "fabs NegInf = PosInf"
| "fabs NaN = NaN"

fun fadd :: "number \<Rightarrow> number \<Rightarrow> number" where
  "fadd (Fin m1 e1) (Fin m2 e2) =
     (let e = min e1 e2 in to_number (m1 * 2 ^ nat (e1 - e) + m2 * 2 ^ nat (e2 - e)) e)"
| "fadd (Fin m1 e1) y = y"
| "fadd PosInf y = (if y = NegInf \<or> y = NaN then NaN else PosInf)"
| "fadd NegInf y = (if y = PosInf \<or> y = NaN then NaN else NegInf)"
| "fadd NaN y = NaN"

fun fmul :: "number \<Rightarrow> number \<Rightarrow> number" where
  "fmul (Fin m1 e1) (Fin m2 e2) = to_number (m1 * m2) (e1 + e2)"
| "fmul (Fin m1 e1) PosInf = (if m1 = 0 then NaN else if 0 < m1 then PosInf else NegInf)"
| "fmul (Fin m1 e1) NegInf = (if m1 = 0 then NaN else if 0 < m1 then NegInf else PosInf)"
| "fmul (Fin m1 e1) NaN = NaN"
| "fmul PosInf (Fin m2 e2) = (if m2 = 0 then NaN else if 0 < m2 then PosInf else NegInf)"
| "fmul PosInf PosInf = PosInf"
| "fmul PosInf NegInf = NegInf"
| "fmul PosInf NaN = NaN"
| "fmul NegInf (Fin m2 e2) = (if m2 = 0 then NaN else if 0 < m2 then NegInf else PosInf)"
| "fmul NegInf PosInf = NegInf"
| "fmul NegInf NegInf = PosInf"
| "fmul NegInf NaN = NaN"
| "fmul NaN y = NaN"

text \<open>
  Division of finite values: the quotient is taken to at least 56 bits and a sticky bit
  records a non-zero remainder, so that the final rounding is that of the exact quotient.
\<close>

definition fdiv_finite :: "int \<Rightarrow> int \<Rightarrow> int \<Rightarrow> int \<Rightarrow> number" where
  "fdiv_finite m1 e1 m2 e2 =
     (let a = \<bar>m1\<bar>; b = \<bar>m2\<bar>;
          k = nat (max 0 (bitlen b - bitlen a + 56));
          q = (a * 2 ^ k) div b;
          r = (a * 2 ^ k) mod b;
          sticky = (if r = 0 then 0 else 1)
      in to_number (sgn m1 * sgn m2 * (2 * q + sticky)) (e1 - e2 - int k - 1))"

fun fdiv :: "number \<Rightarrow> number \<Rightarrow> number" where
  "fdiv (Fin m1 e1) (Fin m2 e2) =
     (if m2 = 0 then (if m1 = 0 then NaN else if 0 < m1 then PosInf else NegInf)
      else if m1 = 0 then Fin 0 (- 1074)
      else fdiv_finite m1 e1 m2 e2)"
| "fdiv (Fin m1 e1) PosInf = Fin 0 (- 1074)"
| "fdiv (Fin m1 e1) NegInf = Fin 0 (- 1074)"
| "fdiv (Fin m1 e1) NaN = NaN"
| "fdiv PosInf (Fin m2 e2) = (if m2 < 0 then NegInf else PosInf)"
| "fdiv NegInf (Fin m2 e2) = (if m2 < 0 then PosInf else NegInf)"
| "fdiv PosInf y = NaN"
| "fdiv NegInf y = NaN"
| "fdiv NaN y = NaN"

text \<open>The integer square root, found bit by bit from the top.\<close>

fun isqrt_bits :: "nat \<Rightarrow> int \<Rightarrow> int \<Rightarrow> int" where
  "isqrt_bits 0 r n = r"
| "isqrt_bits (Suc k) r n =
     (let c = r + 2 ^ k in if c * c \<le> n then isqrt_bits k c n else isqrt_bits k r n)"

definition isqrt :: "int \<Rightarrow> int" where
  "isqrt n = isqrt_bits (nat ((bitlen n + 1) div 2)) 0 n"

definition fsqrt_finite :: "int \<Rightarrow> int \<Rightarrow> number" where
  "fsqrt_finite m e =
     (let k0 = nat (max 0 (110 - bitlen m));
          k = (if even (e - int k0) then k0 else k0 + 1);
          n = m * 2 ^ k;
          s = isqrt n;
          sticky = (if s * s = n then 0 else 1)
      in to_number (2 * s + sticky) ((e - int k) div 2 - 1))"

fun fsqrt :: "number \<Rightarrow> number" where
  "fsqrt (Fin m e) = (if m < 0 then NaN else if m = 0 then Fin 0 (- 1074) else fsqrt_finite m e)"
| "fsqrt PosInf = PosInf"
| "fsqrt NegInf = NaN"
| "fsqrt NaN = NaN"

fun flt :: "number \<Rightarrow> number \<Rightarrow> bool" where
  "flt (Fin m1 e1) (Fin m2 e2) =
     (let e = min e1 e2 in m1 * 2 ^ nat (e1 - e) < m2 * 2 ^ nat (e2 - e))"
| "flt (Fin m1 e1) PosInf = True"
| "flt NegInf (Fin m2 e2) = True"
| "flt NegInf PosInf = True"
| "flt x y = False"

fun feq :: "number \<Rightarrow> number \<Rightarrow> bool" where
  "feq (Fin m1 e1) (Fin m2 e2) =
     (let e = min e1 e2 in m1 * 2 ^ nat (e1 - e) = m2 * 2 ^ nat (e2 - e))"
| "feq PosInf PosInf = True"
| "feq NegInf NegInf = True"
| "feq x y = False"

text \<open>
  \<open>Math.sqrt\<close>, \<open>Math.abs\<close>, \<open>Math.max\<close> and \<open>Math.min\<close>. The source calls \<open>Math.pow\<close>
  with the exponent \<open>2\<close> only; the language leaves the precision of \<open>Math.pow\<close> to the
  engine, and the engines in use return the correctly rounded product \<open>x * x\<close> for
  that exponent, which is what \<open>Math_pow2\<close> is.
\<close>

definition Math_sqrt :: "number \<Rightarrow> number" where
  "Math_sqrt x = fsqrt x"

definition Math_abs :: "number \<Rightarrow> number" where
  "Math_abs x = fabs x"

definition Math_pow2 :: "number \<Rightarrow> number" where
  "Math_pow2 x = fmul x x"

definition Math_max :: "number \<Rightarrow> number \<Rightarrow> number" where
  "Math_max a b = (if a = NaN \<or> b = NaN then NaN else if flt a b then b else a)"

definition Math_min :: "number \<Rightarrow> number \<Rightarrow> number" where
  "Math_min a b = (if a = NaN \<or> b = NaN then NaN else if flt b a then b else a)"

text \<open>\<open>Math.PI\<close>, the binary64 value \<open>0x400921FB54442D18\<close>.\<close>

definition Math_PI :: number where
  "Math_PI = Fin 7074237752028440 (- 51)"

text \<open>
  The operators of the language on numbers. \<open>a \<le> b\<close> and \<open>a < b\<close> are false as soon as
  an operand is \<open>NaN\<close>; the source's \<open>a > b\<close> is \<open>b < a\<close> and its \<open>a >= b\<close> is \<open>b \<le> a\<close>.
\<close>

instantiation number :: "{plus, minus, uminus, times, inverse, ord}"
begin

definition plus_number :: "number \<Rightarrow> number \<Rightarrow> number" where
  "plus_number a b = fadd a b"

definition uminus_number :: "number \<Rightarrow> number" where
  "uminus_number a = fneg a"

definition minus_number :: "number \<Rightarrow> number \<Rightarrow> number" where
  "minus_number a b = fadd a (fneg b)"

definition times_number :: "number \<Rightarrow> number \<Rightarrow> number" where
  "times_number a b = fmul a b"

definition divide_number :: "number \<Rightarrow> number \<Rightarrow> number" where
  "divide_number a b = fdiv a b"

definition inverse_number :: "number \<Rightarrow> number" where
  "inverse_number a = fdiv (num 1) a"

definition less_number :: "number \<Rightarrow> number \<Rightarrow> bool" where
  "less_number a b = flt a b"

definition less_eq_number :: "number \<Rightarrow> number \<Rightarrow> bool" where
  "less_eq_number a b = (flt a b \<or> feq a b)"

instance ..

end

text \<open>
  Decimal literals: \<open>dec d k\<close> is the number nearest to \<open>d / 10 ^ k\<close>, so \<open>1.2\<close> is
  \<open>dec 12 1\<close> and \<open>0.6\<close> is \<open>dec 6 1\<close>.
\<close>

definition dec :: "int \<Rightarrow> nat \<Rightarrow> number" where
  "dec d k = num d / num (10 ^ k)"

text \<open>
  \<open>value || fallback\<close> on numbers: zero and \<open>NaN\<close> are falsy. (So is \<open>undefined\<close>, which
  the declared type of the fields read this way excludes.)
\<close>

fun falsy :: "number \<Rightarrow> bool" where
  "falsy (Fin m e) = (m = 0)"
| "falsy NaN = True"
| "falsy PosInf = False"
| "falsy NegInf = False"

definition or_else :: "number \<Rightarrow> number \<Rightarrow> number" where
  "or_else v fallback = (if falsy v then fallback else v)"

section \<open>Data model (types/index.ts)\<close>

datatype shape = Rectangle | Circle | Square

datatype curvature = Top | Bottom

datatype alignment = Left | Center | Right

datatype effect_type = Shadow | Outline | NoEffect | Separator | BoldEffect | ItalicEffect

datatype separator_char = Star | Bullet | Bar

record TextEffect =
  effect :: effect_type
  color :: "string option"
  blur :: "number option"
  thickness :: "number option"
  separatorChar :: "separator_char option"

text \<open>
  \<open>getDefaultLinePosition\<close> returns a \<open>Partial<StampTextLine>\<close> holding five of the fields
  of a line; \<open>StampTextLine\<close> extends that record with the remaining ones. The optional
  fields (\<open>curvature?\<close>, \<open>isDragging?\<close>, \<open>textEffect?\<close>) are options. A text is a list of
  characters, and \<open>text.length\<close> is the length of that list.
\<close>

record LinePosition =
  xPosition :: number
  yPosition :: number
  curved :: bool
  curvature :: "curvature option"
  fontSize :: number

record StampTextLine = LinePosition +
  "text" :: string
  fontFamily :: string
  bold :: bool
  italic :: bool
  alignment :: alignment
  isDragging :: "bool option"
  letterSpacing :: number
  textEffect :: "TextEffect option"

section \<open>TextPositioningService\<close>

definition MARGIN_PERCENT :: number where
  "MARGIN_PERCENT = num 2"

subsection \<open>getDefaultLinePosition\<close>

text \<open>
  \<open>index\<close> and \<open>totalLines\<close> are whole numbers (an array index and an array length); they
  are kept as integers and converted where they enter the arithmetic on positions.
\<close>

definition getDefaultLinePosition :: "int \<Rightarrow> int \<Rightarrow> shape \<Rightarrow> LinePosition" where
  "getDefaultLinePosition index totalLines shape =
     (let line = \<lparr>xPosition = num 0, yPosition = num 0, curved = False,
                   curvature = Some Top, fontSize = num 16\<rparr>
      in if shape = Circle \<and> 2 \<le> totalLines then
           (if index = 0 then
              line\<lparr>curved := True, curvature := Some Top,
                   yPosition := - num 70, fontSize := num 14\<rparr>
            else if index = totalLines - 1 then
              line\<lparr>curved := True, curvature := Some Bottom,
                   yPosition := num 70, fontSize := num 14\<rparr>
            else
              (let middleLineCount = totalLines - 2
               in if 0 < middleLineCount then
                    (let middleIndex = index - 1;
                         spacing = num 100 / num (middleLineCount + 1)
                     in line\<lparr>yPosition := - num 40 + num (middleIndex + 1) * spacing\<rparr>)
                  else line))
         else
           (let availableHeight = num 180;
                spacing = (if 1 < totalLines then availableHeight / num totalLines else num 0);
                startY = - availableHeight / num 2 + spacing / num 2;
                line' = line\<lparr>yPosition := startY + num index * spacing\<rparr>
            in if 3 < totalLines
               then line'\<lparr>fontSize := Math_max (num 12) (num 18 - num totalLines)\<rparr>
               else line'))"

subsection \<open>distributeLines\<close>

definition availableHeight_of :: "shape \<Rightarrow> number" where
  "availableHeight_of shape = (if shape = Circle then num 160 else num 180)"

text \<open>The \<open>reduce\<close> that sums the line heights, from the left, starting at \<open>0\<close>.\<close>

definition totalTextHeight :: "StampTextLine list \<Rightarrow> number" where
  "totalTextHeight lines = foldl (\<lambda>total line. total + fontSize line * dec 12 1) (num 0) lines"

text \<open>The spacing between lines; the divisor is \<open>lineCount - 1\<close>.\<close>

definition spacing_divisor :: "nat \<Rightarrow> number" where
  "spacing_divisor lineCount = num (int lineCount - 1)"

definition distribute_spacing :: "StampTextLine list \<Rightarrow> shape \<Rightarrow> number" where
  "distribute_spacing lines shape =
     (let lineCount = length lines
      in if 1 < lineCount
         then (availableHeight_of shape - totalTextHeight lines) / spacing_divisor lineCount
         else num 0)"

text \<open>
  The callback of \<open>lines.map\<close>, with the variable \<open>currentY\<close> that it updates and the
  index that \<open>map\<close> passes threaded through the traversal.
\<close>

fun distribute_map ::
  "shape \<Rightarrow> nat \<Rightarrow> number \<Rightarrow> number \<Rightarrow> number \<Rightarrow> nat \<Rightarrow> StampTextLine list \<Rightarrow> StampTextLine list"
where
  "distribute_map shape lineCount availableHeight spacing currentY index [] = []"
| "distribute_map shape lineCount availableHeight spacing currentY index (line # rest) =
     (let lineHeight = fontSize line * dec 12 1;
          yPos = currentY + lineHeight / num 2;
          currentY' = currentY + (lineHeight + spacing);
          newLine =
            (if shape = Circle \<and> 1 < lineCount then
               (if index = 0 then line\<lparr>curved := True, curvature := Some Top\<rparr>
                else if index = lineCount - 1 then line\<lparr>curved := True, curvature := Some Bottom\<rparr>
                else line\<lparr>curved := False\<rparr>)
             else line)
      in newLine\<lparr>yPosition := yPos / (availableHeight / num 2) * num 100\<rparr>
         # distribute_map shape lineCount availableHeight spacing currentY' (index + 1) rest)"

definition distributeLines :: "StampTextLine list \<Rightarrow> shape \<Rightarrow> StampTextLine list" where
  "distributeLines lines shape =
     (if lines = [] then []
      else (let availableHeight = availableHeight_of shape;
                lineCount = length lines;
                spacing = distribute_spacing lines shape;
                currentY = - availableHeight / num 2
            in distribute_map shape lineCount availableHeight spacing currentY 0 lines))"

text \<open>
  Division by zero does not throw in the language: it yields an infinity or \<open>NaN\<close>. To
  state that \<open>distributeLines\<close> never divides by zero, the function is written a second
  time with every \<open>/\<close> replaced by a division that reports a zero divisor: the result is
  \<open>None\<close> as soon as one division of the run has the divisor zero. The statements are
  those of the source, in its order: the guarded spacing, the initial \<open>currentY\<close>, and in
  the callback the half line height and the rescaling by \<open>availableHeight / 2\<close>.
\<close>

fun is_zero :: "number \<Rightarrow> bool" where
  "is_zero (Fin m e) = (m = 0)"
| "is_zero PosInf = False"
| "is_zero NegInf = False"
| "is_zero NaN = False"

definition checked_div :: "number \<Rightarrow> number \<Rightarrow> number option" where
  "checked_div a b = (if is_zero b then None else Some (a / b))"

definition distribute_spacing_checked :: "StampTextLine list \<Rightarrow> shape \<Rightarrow> number option" where
  "distribute_spacing_checked lines shape =
     (let lineCount = length lines
      in if 1 < lineCount
         then checked_div (availableHeight_of shape - totalTextHeight lines)
                          (spacing_divisor lineCount)
         else Some (num 0))"

fun distribute_map_checked ::
  "shape \<Rightarrow> nat \<Rightarrow> number \<Rightarrow> number \<Rightarrow> number \<Rightarrow> nat \<Rightarrow> StampTextLine list
   \<Rightarrow> StampTextLine list option"
where
  "distribute_map_checked shape lineCount availableHeight spacing currentY index [] = Some []"
| "distribute_map_checked shape lineCount availableHeight spacing currentY index (line # rest) =
     do {
       let lineHeight = fontSize line * dec 12 1;
       halfLineHeight \<leftarrow> checked_div lineHeight (num 2);
       let yPos = currentY + halfLineHeight;
       let currentY' = currentY + (lineHeight + spacing);
       let newLine =
            (if shape = Circle \<and> 1 < lineCount then
               (if index = 0 then line\<lparr>curved := True, curvature := Some Top\<rparr>
                else if index = lineCount - 1 then line\<lparr>curved := True, curvature := Some Bottom\<rparr>
                else line\<lparr>curved := False\<rparr>)
             else line);
       halfHeight \<leftarrow> checked_div availableHeight (num 2);
       scaled \<leftarrow> checked_div yPos halfHeight;
       others \<leftarrow> distribute_map_checked shape lineCount availableHeight spacing currentY'
                   (index + 1) rest;
       Some (newLine\<lparr>yPosition := scaled * num 100\<rparr> # others)
     }"

definition distributeLines_checked ::
  "StampTextLine list \<Rightarrow> shape \<Rightarrow> StampTextLine list option"
where
  "distributeLines_checked lines shape =
     (if lines = [] then Some []
      else do {
        let availableHeight = availableHeight_of shape;
        let lineCount = length lines;
        spacing \<leftarrow> distribute_spacing_checked lines shape;
        currentY \<leftarrow> checked_div (- availableHeight) (num 2);
        distribute_map_checked shape lineCount availableHeight spacing currentY 0 lines
      })"

subsection \<open>enforceSafeZone and isOutsideSafeZone\<close>

definition enforceSafeZone :: "StampTextLine \<Rightarrow> shape \<Rightarrow> StampTextLine" where
  "enforceSafeZone line shape =
     (let margin = MARGIN_PERCENT
      in if shape = Circle then
           (let safeRadius = num 100 - margin * Math_sqrt (num 2);
                distanceFromCenter =
                  Math_sqrt (Math_pow2 (or_else (xPosition line) (num 0))
                             + Math_pow2 (or_else (yPosition line) (num 0)))
            in if safeRadius < distanceFromCenter then
                 (let ratio = safeRadius / distanceFromCenter
                  in line\<lparr>xPosition := or_else (xPosition line) (num 0) * ratio,
                          yPosition := or_else (yPosition line) (num 0) * ratio\<rparr>)
               else line)
         else
           (let safeMax = num 100 - margin;
                safeMin = - safeMax
            in line\<lparr>xPosition :=
                      Math_min (Math_max (or_else (xPosition line) (num 0)) safeMin) safeMax,
                    yPosition :=
                      Math_min (Math_max (or_else (yPosition line) (num 0)) safeMin) safeMax\<rparr>))"

definition isOutsideSafeZone :: "StampTextLine \<Rightarrow> shape \<Rightarrow> bool" where
  "isOutsideSafeZone line shape =
     (let margin = MARGIN_PERCENT
      in if shape = Circle then
           (let safeRadius = num 100 - margin * Math_sqrt (num 2);
                distanceFromCenter =
                  Math_sqrt (Math_pow2 (or_else (xPosition line) (num 0))
                             + Math_pow2 (or_else (yPosition line) (num 0)))
            in safeRadius < distanceFromCenter)
         else
           (let safeMax = num 100 - margin;
                safeMin = - safeMax
            in safeMax < or_else (xPosition line) (num 0)
               \<or> or_else (xPosition line) (num 0) < safeMin
               \<or> safeMax < or_else (yPosition line) (num 0)
               \<or> or_else (yPosition line) (num 0) < safeMin))"

text \<open>The clamp that the rectangle and square branch applies to each coordinate.\<close>

abbreviation safe_clamp :: "number \<Rightarrow> number" where
  "safe_clamp v \<equiv>
     Math_min (Math_max (or_else v (num 0)) (- (num 100 - MARGIN_PERCENT)))
              (num 100 - MARGIN_PERCENT)"

subsection \<open>detectLineCollisions\<close>

text \<open>The test made on one pair of lines in the body of the inner loop.\<close>

definition lines_collide :: "StampTextLine \<Rightarrow> StampTextLine \<Rightarrow> bool" where
  "lines_collide line1 line2 =
     (let line1Height = or_else (fontSize line1) (num 16);
          line2Height = or_else (fontSize line2) (num 16);
          yDistance = Math_abs (or_else (yPosition line1) (num 0) - or_else (yPosition line2) (num 0));
          minRequiredDistance = (line1Height + line2Height) * dec 6 1;
          xDistance = Math_abs (or_else (xPosition line1) (num 0) - or_else (xPosition line2) (num 0));
          textWidth1 = num (int (length (text line1))) * or_else (fontSize line1) (num 16) * dec 6 1;
          textWidth2 = num (int (length (text line2))) * or_else (fontSize line2) (num 16) * dec 6 1;
          horizontalOverlap = (xDistance < (textWidth1 + textWidth2) / num 2)
      in yDistance < minRequiredDistance \<and> horizontalOverlap)"

text \<open>
  The inner loop compares \<open>line1\<close> with every later line and returns at the first
  collision; the outer loop does so for every line but the last, whose inner loop
  would be empty.
\<close>

fun collides_with_later :: "StampTextLine \<Rightarrow> StampTextLine list \<Rightarrow> bool" where
  "collides_with_later line1 [] = False"
| "collides_with_later line1 (line2 # rest) =
     (if lines_collide line1 line2 then True else collides_with_later line1 rest)"

fun collision_scan :: "StampTextLine list \<Rightarrow> bool" where
  "collision_scan [] = False"
| "collision_scan (line1 # rest) =
     (if collides_with_later line1 rest then True else collision_scan rest)"

definition detectLineCollisions :: "StampTextLine list \<Rightarrow> shape \<Rightarrow> bool" where
  "detectLineCollisions lines shape =
     (if length lines < 2 then False else collision_scan lines)"

subsection \<open>getSafeZone, isTextWithinSafeZone and getLinesOutsideSafeZone\<close>

record SafeZone =
  top_margin :: number
  right_margin :: number
  bottom_margin :: number
  left_margin :: number

definition getSafeZone :: "shape \<Rightarrow> SafeZone" where
  "getSafeZone shape =
     (let margin = MARGIN_PERCENT
      in \<lparr>top_margin = margin, right_margin = margin,
          bottom_margin = margin, left_margin = margin\<rparr>)"

definition isTextWithinSafeZone :: "string \<Rightarrow> StampTextLine \<Rightarrow> shape \<Rightarrow> bool" where
  "isTextWithinSafeZone txt line shape =
     (if txt = [] then True
      else
        (let estimatedCharWidth = fontSize line * dec 6 1;
             estimatedTextWidth = num (int (length txt)) * estimatedCharWidth;
             estimatedTextHeight = fontSize line * dec 12 1;
             textLeft = or_else (xPosition line) (num 0) - estimatedTextWidth / num 2;
             textRight = or_else (xPosition line) (num 0) + estimatedTextWidth / num 2;
             textTop = or_else (yPosition line) (num 0) - estimatedTextHeight / num 2;
             textBottom = or_else (yPosition line) (num 0) + estimatedTextHeight / num 2;
             safeZone = getSafeZone shape;
             safeLeft = - num 100 + left_margin safeZone;
             safeRight = num 100 - right_margin safeZone;
             safeTop = - num 100 + top_margin safeZone;
             safeBottom = num 100 - bottom_margin safeZone
         in if shape = Rectangle \<or> shape = Square then
              safeLeft \<le> textLeft \<and> textRight \<le> safeRight
              \<and> safeTop \<le> textTop \<and> textBottom \<le> safeBottom
            else if shape = Circle then
              (let safeRadius =
                     num 100 - Math_max (Math_max (Math_max (top_margin safeZone)
                       (right_margin safeZone)) (bottom_margin safeZone)) (left_margin safeZone)
               in if curved line then
                    (let distanceFromCenter = Math_abs (or_else (yPosition line) (num 0))
                     in distanceFromCenter + estimatedTextHeight / num 2 \<le> safeRadius)
                  else
                    (let distanceFromCenter =
                           Math_sqrt (Math_pow2 (or_else (xPosition line) (num 0))
                                      + Math_pow2 (or_else (yPosition line) (num 0)));
                         textBoxDiagonal =
                           Math_sqrt (Math_pow2 (estimatedTextWidth / num 2)
                                      + Math_pow2 (estimatedTextHeight / num 2))
                     in distanceFromCenter + textBoxDiagonal \<le> safeRadius))
            else True))"

text \<open>The \<open>forEach\<close> that pushes the index of every line failing the test.\<close>

fun outside_from :: "shape \<Rightarrow> nat \<Rightarrow> StampTextLine list \<Rightarrow> nat list" where
  "outside_from shape index [] = []"
| "outside_from shape index (line # rest) =
     (if \<not> isTextWithinSafeZone (text line) line shape
      then index # outside_from shape (index + 1) rest
      else outside_from shape (index + 1) rest)"

definition getLinesOutsideSafeZone :: "StampTextLine list \<Rightarrow> shape \<Rightarrow> nat list" where
  "getLinesOutsideSafeZone lines shape =
     (if lines = [] then [] else outside_from shape 0 lines)"

section \<open>Curved text on a canvas\<close>

text \<open>
  The drawing routines only call methods of the \<open>CanvasRenderingContext2D\<close> they are
  given. The context is modelled by the sequence of calls made on it, which a routine
  extends.
\<close>

datatype canvas_call =
    Save
  | Restore
  | Translate number number
  | Rotate number
  | FillText string number number
  | SetFont bool bool number string
  | SetTextAlign string
  | SetTextBaseline string
  | SetFillStyle string

text \<open>
  Both routines draw the characters with the same loop: each character is painted at
  the current angle inside its own \<open>save\<close> and \<open>restore\<close>, and the angle then
  advances by \<open>charAngle\<close>.
\<close>

fun draw_chars :: "bool \<Rightarrow> number \<Rightarrow> number \<Rightarrow> number \<Rightarrow> string \<Rightarrow> canvas_call list" where
  "draw_chars isBottomText radius charAngle currentAngle [] = []"
| "draw_chars isBottomText radius charAngle currentAngle (c # cs) =
     [Save, Rotate currentAngle, Translate (num 0) (- radius)]
     @ (if isBottomText then [Rotate Math_PI] else [])
     @ [FillText [c] (num 0) (num 0), Restore]
     @ draw_chars isBottomText radius charAngle (currentAngle + charAngle) cs"

subsection \<open>renderCurvedText of hooks/useStampDesigner.ts\<close>

definition hook_arcLength :: number where
  "hook_arcLength = Math_PI * dec 12 1"

definition hook_renderCurvedText ::
  "canvas_call list \<Rightarrow> StampTextLine \<Rightarrow> number \<Rightarrow> number \<Rightarrow> number \<Rightarrow> canvas_call list"
where
  "hook_renderCurvedText ctx line centerX centerY radius =
     (let txt = text line
      in if txt = [] then ctx
         else
           (let isBottomText = (num 0 < or_else (yPosition line) (num 0));
                textLength = length txt;
                arcLength = hook_arcLength;
                charAngle = (if 0 < textLength then arcLength / num (int textLength) else num 0);
                currentAngle = - arcLength / num 2
            in ctx @ [Save, Translate centerX centerY]
               @ (if isBottomText then [Rotate Math_PI] else [])
               @ draw_chars isBottomText radius charAngle currentAngle txt
               @ [Restore]))"

subsection \<open>TextPositioningService.renderCurvedText\<close>

definition service_startAngle :: "bool \<Rightarrow> number" where
  "service_startAngle isBottomText =
     (if isBottomText then Math_PI / num 4 else - Math_PI / num 4)"

definition service_endAngle :: "bool \<Rightarrow> number" where
  "service_endAngle isBottomText =
     (if isBottomText then Math_PI * num 7 / num 4 else Math_PI / num 4)"

definition service_arcLength :: "bool \<Rightarrow> number" where
  "service_arcLength isBottomText =
     Math_abs (service_endAngle isBottomText - service_startAngle isBottomText)"

definition renderCurvedText ::
  "canvas_call list \<Rightarrow> string \<Rightarrow> number \<Rightarrow> number \<Rightarrow> number \<Rightarrow> StampTextLine \<Rightarrow> canvas_call list"
where
  "renderCurvedText ctx txt centerX centerY radius line =
     (if txt = [] then ctx
      else
        (let isBottomText = (curvature line = Some Bottom);
             textLength = length txt;
             startAngle = service_startAngle isBottomText;
             arcLength = service_arcLength isBottomText;
             charAngle = arcLength / num (int textLength);
             currentAngle = startAngle
         in ctx @ [Save, Translate centerX centerY]
            @ (if isBottomText then [Rotate Math_PI] else [])
            @ [SetFont (italic line) (bold line) (fontSize line) (fontFamily line),
               SetTextAlign ''center'', SetTextBaseline ''middle'', SetFillStyle ''black'']
            @ draw_chars isBottomText radius charAngle currentAngle txt
            @ [Restore]))"

section \<open>Millimetre labels (StampDesigner/SimplifiedTextEditor.tsx)\<close>

text \<open>
  \<open>formatPositionLabel\<close> converts a coordinate to millimetres before formatting it:
  \<open>const mmValue = value / 4\<close>.
\<close>

definition toMillimeters :: "number \<Rightarrow> number" where
  "toMillimeters coord = coord / num 4"

text \<open>
  Modelled from the spec: the inverse conversion \<open>toCoord(mm) = mm * 4\<close>, which no
  source file defines.
\<close>

definition toCoord :: "number \<Rightarrow> number" where
  "toCoord mm = mm * num 4"

section \<open>Sample designs\<close>

text \<open>The \<open>defaultLine\<close> of hooks/useStampDesigner.ts, from which the sample lines are built.\<close>

definition defaultLine :: StampTextLine where
  "defaultLine =
     \<lparr>xPosition = num 0, yPosition = num 0, curved = False, curvature = Some Top,
      fontSize = num 16, text = [], fontFamily = ''Arial'', bold = False, italic = False,
      alignment = Center, isDragging = None, letterSpacing = num 0, textEffect = None\<rparr>"

definition three_lines :: "StampTextLine list" where
  "three_lines =
     [defaultLine\<lparr>text := ''CACHET''\<rparr>,
      defaultLine\<lparr>text := ''MAROC'', curved := True, curvature := Some Bottom\<rparr>,
      defaultLine\<lparr>text := ''2024''\<rparr>]"

definition far_lines :: "StampTextLine list" where
  "far_lines =
     [defaultLine\<lparr>text := ''AB'', xPosition := num 500\<rparr>,
      defaultLine\<lparr>xPosition := num 500, yPosition := num 500\<rparr>]"

text \<open>A line dragged to \<open>(99, 10)\<close>, outside the safe circle of a round stamp.\<close>

definition dragged_line :: StampTextLine where
  "dragged_line = defaultLine\<lparr>text := ''CACHET'', xPosition := num 99, yPosition := num 10\<rparr>"

text \<open>Two lines of five characters at the same position, and a third one far below.\<close>

definition stacked_lines :: "StampTextLine list" where
  "stacked_lines =
     [defaultLine\<lparr>text := ''HELLO''\<rparr>,
      defaultLine\<lparr>text := ''BELOW'', yPosition := num 80\<rparr>,
      defaultLine\<lparr>text := ''WORLD''\<rparr>]"

definition stacked_lines_reordered :: "StampTextLine list" where
  "stacked_lines_reordered =
     [defaultLine\<lparr>text := ''BELOW'', yPosition := num 80\<rparr>,
      defaultLine\<lparr>text := ''WORLD''\<rparr>,
      defaultLine\<lparr>text := ''HELLO''\<rparr>]"

text \<open>A straight two-letter line for the drawing routines.\<close>

definition two_letter_line :: StampTextLine where
  "two_letter_line = defaultLine\<lparr>text := ''AB''\<rparr>"

section \<open>Facts about numbers\<close>

text \<open>Some familiar values, as a check of the arithmetic.\<close>

lemma binary64_landmarks:
  "num 1 / num 3 = Fin 6004799503160661 (- 54)"
  "Math_sqrt (num 2) = Fin 6369051672525773 (- 52)"
  "dec 1 1 + dec 2 1 = Fin 5404319552844596 (- 54)"
  "dec 3 1 = Fin 5404319552844595 (- 54)"
  "num 9007199254740993 = num 9007199254740992"
  "Fin 1 (- 1074) / num 2 = num 0"
  "Fin 9007199254740991 971 * num 2 = PosInf"
  by code_simp+

lemma shift_round_ge: "a div 2 ^ s \<le> shift_round a s"
  by (auto simp: shift_round_def Let_def)

text \<open>Rounding a non-zero exact value whose exponent is in range never gives zero or \<open>NaN\<close>.\<close>

lemma to_number_nonzero:
  assumes M: "M \<noteq> 0" and E: "- 1074 \<le> E"
  shows "\<not> falsy (to_number M E)"
proof -
  define a where "a = \<bar>M\<bar>"
  define e where "e = max (E + bitlen a - 53) (- 1074)"
  define q where "q = (if e \<le> E then a * 2 ^ nat (E - e) else shift_round a (nat (e - E)))"
  have a: "0 < a" using M by (simp add: a_def)
  have q: "0 < q"
  proof (cases "e \<le> E")
    case True
    then show ?thesis using a by (simp add: q_def)
  next
    case False
    then have e: "e = E + bitlen a - 53" using E by (simp add: e_def max_def split: if_splits)
    with False have b: "53 < bitlen a" by simp
    have "(2::int) ^ nat (bitlen a - 1) \<le> a" using bitlen_bounds[OF a] by simp
    moreover have "nat (bitlen a - 1) = nat (e - E) + 52" using e b by simp
    ultimately have "(2::int) ^ 52 * 2 ^ nat (e - E) \<le> a" by (simp add: power_add)
    then have "((2::int) ^ 52 * 2 ^ nat (e - E)) div 2 ^ nat (e - E) \<le> a div 2 ^ nat (e - E)"
      by (rule zdiv_mono1) simp
    then have "(2::int) ^ 52 \<le> a div 2 ^ nat (e - E)" by simp
    moreover have "(0::int) < 2 ^ 52" by (rule zero_less_power) simp
    ultimately have "0 < a div 2 ^ nat (e - E)" by (rule less_le_trans[rotated])
    then show ?thesis using False shift_round_ge[of a "nat (e - E)"] by (simp add: q_def)
  qed
  have "sgn M * q \<noteq> 0" "sgn M * 2 ^ 52 \<noteq> 0" using M q by (auto simp: sgn_if)
  then show ?thesis
    using M unfolding to_number_def Let_def a_def[symmetric] e_def[symmetric] q_def[symmetric]
    by (auto simp: q)
qed

lemma num_nonzero: "k \<noteq> 0 \<Longrightarrow> \<not> falsy (num k)"
  by (simp add: num_def to_number_nonzero)

text \<open>Negation commutes with rounding, so addition is commutative and \<open>|a - b| = |b - a|\<close>.\<close>

lemma to_number_neg: "to_number (- M) E = fneg (to_number M E)"
  by (simp add: to_number_def Let_def)

lemma fabs_fneg: "fabs (fneg x) = fabs x"
  by (cases x) simp_all

lemma fadd_commute: "fadd a b = fadd b a"
  by (cases a; cases b) (simp_all add: Let_def min.commute add.commute)

lemma fneg_fadd: "fneg (fadd a (fneg b)) = fadd b (fneg a)"
proof (cases a; cases b)
  fix m1 e1 m2 e2 assume "a = Fin m1 e1" "b = Fin m2 e2"
  then show ?thesis
    by (simp add: Let_def min.commute to_number_neg[symmetric] algebra_simps)
qed simp_all

lemma abs_diff_commute: "Math_abs (a - b) = Math_abs (b - a)" for a b :: number
proof -
  have "fabs (fadd a (fneg b)) = fabs (fneg (fadd a (fneg b)))" by (simp add: fabs_fneg)
  then show ?thesis by (simp add: Math_abs_def minus_number_def fneg_fadd)
qed

lemma plus_number_commute: "a + b = b + a" for a b :: number
  by (simp add: plus_number_def fadd_commute)

text \<open>
  An exact value with a mantissa of 53 bits and an exponent in range is representable:
  rounding returns it unchanged.
\<close>

lemma bitlen_53: "2 ^ 52 \<le> a \<Longrightarrow> a < 2 ^ 53 \<Longrightarrow> bitlen a = 53"
  by (rule antisym) (simp_all add: bitlen_le_iff_power bitlen_ge_iff_power)

lemma shift_round_exact: "0 < s \<Longrightarrow> shift_round (a * 2 ^ s) s = a"
  by (simp add: shift_round_def Let_def)

lemma to_number_exact:
  assumes m: "2 ^ 52 \<le> \<bar>m\<bar>" "\<bar>m\<bar> < 2 ^ 53" and e: "- 1074 \<le> e" "e \<le> 971" and s: "0 < s"
  shows "to_number (m * 2 ^ s) (e - int s) = Fin m e"
proof -
  have m0: "m \<noteq> 0" using m by auto
  have abs: "\<bar>m * 2 ^ s\<bar> = \<bar>m\<bar> * 2 ^ s" by (simp add: abs_mult)
  have pos: "0 < \<bar>m\<bar>" using m0 by simp
  have bl: "bitlen (\<bar>m\<bar> * 2 ^ s) = 53 + int s"
    using bitlen_pow2[OF pos, of s] bitlen_53[OF m] by simp
  have ex: "max (e - int s + bitlen (\<bar>m\<bar> * 2 ^ s) - 53) (- 1074) = e"
    using e by (simp add: bl)
  have sh: "shift_round (\<bar>m\<bar> * 2 ^ s) (nat (e - (e - int s))) = \<bar>m\<bar>"
    using s by (simp add: shift_round_exact)
  have ne: "\<not> e \<le> e - int s" using s by simp
  have q: "\<bar>m\<bar> \<noteq> 2 ^ 53" "\<bar>m\<bar> \<noteq> 0" using m m0 by simp_all
  have sg: "sgn (m * 2 ^ s) * \<bar>m\<bar> = m" by (simp add: sgn_mult mult_sgn_abs)
  have nz: "m * 2 ^ s \<noteq> 0" using m0 by simp
  show ?thesis
    unfolding to_number_def Let_def abs ex sh
    using ne q e(2) nz by (simp add: sg)
qed

lemma num_4: "num 4 = Fin (2 ^ 52) (- 50)"
  by code_simp

section \<open>The default layout\<close>

text \<open>
  Claim C3. On a circle with three lines, \<open>getDefaultLinePosition\<close> puts line 0 on the
  top arc (curved, curvature top, \<open>yPosition = -70\<close>, \<open>fontSize = 14\<close>), line 2 on the
  bottom arc (curved, curvature bottom, \<open>yPosition = 70\<close>, \<open>fontSize = 14\<close>), and leaves
  line 1 straight at \<open>yPosition = -40 + 1 * (100 / 2) = 10\<close>.
\<close>

theorem default_position_circle_three_lines:
  "getDefaultLinePosition 0 3 Circle =
     \<lparr>xPosition = num 0, yPosition = - num 70, curved = True,
      curvature = Some Top, fontSize = num 14\<rparr>
   \<and> getDefaultLinePosition 2 3 Circle =
     \<lparr>xPosition = num 0, yPosition = num 70, curved = True,
      curvature = Some Bottom, fontSize = num 14\<rparr>
   \<and> getDefaultLinePosition 1 3 Circle =
     \<lparr>xPosition = num 0, yPosition = num 10, curved = False,
      curvature = Some Top, fontSize = num 16\<rparr>
   \<and> - num 40 + num 1 * (num 100 / num 2) = num 10"
  by code_simp

section \<open>Even distribution\<close>

lemma length_distribute_map:
  "length (distribute_map shape n h s cy k ls) = length ls"
  by (induction ls arbitrary: cy k) (simp_all add: Let_def)

lemma text_distribute_map:
  "map text (distribute_map shape n h s cy k ls) = map text ls"
  by (induction ls arbitrary: cy k) (simp_all add: Let_def)

lemma length_distributeLines:
  "length (distributeLines lines shape) = length lines"
  by (simp add: distributeLines_def Let_def length_distribute_map)

text \<open>
  Claim C4. \<open>distributeLines\<close> maps the empty list to the empty list, and for every
  input it returns as many lines as it was given, carrying the same texts in the same
  order.
\<close>

theorem distributeLines_keeps_count_and_text:
  "distributeLines [] shape = []
   \<and> length (distributeLines lines shape) = length lines
   \<and> map text (distributeLines lines shape) = map text lines"
  by (simp add: distributeLines_def Let_def length_distribute_map text_distribute_map)

text \<open>On a circle with more than one line, the flags of an output line depend on its index only.\<close>

lemma curved_distribute_map:
  "i < length ls \<Longrightarrow> 1 < n \<Longrightarrow>
   curved (distribute_map Circle n h s cy k ls ! i) = (k + i = 0 \<or> k + i = n - 1)
   \<and> curvature (distribute_map Circle n h s cy k ls ! i) =
       (if k + i = 0 then Some Top else if k + i = n - 1 then Some Bottom
        else curvature (ls ! i))"
proof (induction ls arbitrary: cy k i)
  case Nil
  then show ?case by simp
next
  case (Cons l ls)
  show ?case
  proof (cases i)
    case 0
    then show ?thesis using Cons.prems by (simp add: Let_def)
  next
    case (Suc j)
    then have "j < length ls" using Cons.prems by simp
    from Cons.IH[OF this Cons.prems(2), of _ "k + 1"] Suc
    show ?thesis by (simp add: Let_def)
  qed
qed

text \<open>
  Claim C5. On a circle, for every input of at least two lines, the first output line
  is curved along the top, the last is curved along the bottom, and every line in
  between is straight.
\<close>

theorem distributeLines_circle_curvature:
  assumes "2 \<le> length lines"
  shows "curved (hd (distributeLines lines Circle))
         \<and> curvature (hd (distributeLines lines Circle)) = Some Top
         \<and> curved (last (distributeLines lines Circle))
         \<and> curvature (last (distributeLines lines Circle)) = Some Bottom
         \<and> (\<forall>i. 0 < i \<and> i < length lines - 1
                \<longrightarrow> \<not> curved (distributeLines lines Circle ! i))"
proof -
  let ?n = "length lines"
  let ?out = "distributeLines lines Circle"
  have ne: "lines \<noteq> []" and n: "1 < ?n" using assms by auto
  have len: "length ?out = ?n" by (rule length_distributeLines)
  have nth: "curved (?out ! i) = (i = 0 \<or> i = ?n - 1)
             \<and> curvature (?out ! i) =
                 (if i = 0 then Some Top else if i = ?n - 1 then Some Bottom
                  else curvature (lines ! i))" if "i < ?n" for i
    using curved_distribute_map[OF that n, of _ _ _ 0] ne
    by (simp add: distributeLines_def Let_def)
  have out_ne: "?out \<noteq> []" using len ne by auto
  have h: "hd ?out = ?out ! 0" using out_ne by (simp add: hd_conv_nth)
  have l: "last ?out = ?out ! (?n - 1)" using out_ne len by (simp add: last_conv_nth)
  have first: "curved (?out ! 0) \<and> curvature (?out ! 0) = Some Top"
    using nth[of 0] n ne by simp
  have final: "curved (?out ! (?n - 1)) \<and> curvature (?out ! (?n - 1)) = Some Bottom"
    using nth[of "?n - 1"] n by simp
  have inner: "\<not> curved (?out ! i)" if "0 < i \<and> i < ?n - 1" for i
  proof -
    from that have "i < ?n" and "i \<noteq> 0" and "i \<noteq> ?n - 1" by linarith+
    with nth[of i] show ?thesis by simp
  qed
  show ?thesis
    unfolding h l using first final inner by blast
qed

lemma length_three_lines: "length three_lines = 3"
  by (simp add: three_lines_def)

theorem distributeLines_circle_curvature_witness:
  "2 \<le> length three_lines
   \<and> curved (three_lines ! 1)
   \<and> curved (hd (distributeLines three_lines Circle))
   \<and> curvature (hd (distributeLines three_lines Circle)) = Some Top
   \<and> curved (last (distributeLines three_lines Circle))
   \<and> curvature (last (distributeLines three_lines Circle)) = Some Bottom
   \<and> \<not> curved (distributeLines three_lines Circle ! 1)"
proof -
  have two: "2 \<le> length three_lines" by (simp add: length_three_lines)
  have was_curved: "curved (three_lines ! 1)" by (simp add: three_lines_def)
  note out = distributeLines_circle_curvature[OF two]
  from out have "0 < (1::nat) \<and> 1 < length three_lines - 1
                 \<longrightarrow> \<not> curved (distributeLines three_lines Circle ! 1)"
    by blast
  then have "\<not> curved (distributeLines three_lines Circle ! 1)"
    by (simp add: length_three_lines)
  with two was_curved out show ?thesis by blast
qed

text \<open>The divisors that \<open>distributeLines\<close> uses.\<close>

lemma is_zero_falsy: "is_zero x \<Longrightarrow> falsy x"
  by (cases x) simp_all

lemma checked_div_nonzero: "\<not> is_zero b \<Longrightarrow> checked_div a b = Some (a / b)"
  by (simp add: checked_div_def)

lemma two_nonzero: "\<not> is_zero (num 2)"
  using num_nonzero[of 2] is_zero_falsy by auto

lemma half_height_nonzero: "\<not> is_zero (availableHeight_of shape / num 2)"
proof -
  have "\<not> is_zero (num 160 / num 2)" "\<not> is_zero (num 180 / num 2)" by code_simp+
  then show ?thesis by (simp add: availableHeight_of_def)
qed

lemma spacing_divisor_nonzero: "1 < n \<Longrightarrow> \<not> is_zero (spacing_divisor n)"
  using num_nonzero[of "int n - 1"] is_zero_falsy by (auto simp: spacing_divisor_def)

lemma spacing_divisor_one: "is_zero (spacing_divisor 1)"
  by (simp add: spacing_divisor_def num_def to_number_def)

lemma distribute_map_checked_eq:
  "\<not> is_zero (h / num 2) \<Longrightarrow>
   distribute_map_checked shape n h s cy k ls = Some (distribute_map shape n h s cy k ls)"
  by (induction ls arbitrary: cy k) (simp_all add: Let_def checked_div_nonzero two_nonzero)

text \<open>
  Claim C9. \<open>distributeLines\<close> never divides by zero and is total: for every input the
  run with checked divisions meets no zero divisor and returns the list that
  \<open>distributeLines\<close> returns. With exactly one line the spacing is set to \<open>0\<close> without
  dividing, where the division by \<open>lineCount - 1\<close> would have had the divisor zero.
\<close>

theorem distributeLines_never_divides_by_zero:
  "distributeLines_checked lines shape = Some (distributeLines lines shape)
   \<and> (length lines = 1 \<longrightarrow>
        distribute_spacing_checked lines shape = Some (num 0)
        \<and> checked_div (availableHeight_of shape - totalTextHeight lines)
                       (spacing_divisor (length lines)) = None)"
proof -
  have sp: "distribute_spacing_checked lines shape = Some (distribute_spacing lines shape)"
    by (simp add: distribute_spacing_checked_def distribute_spacing_def Let_def
        checked_div_nonzero spacing_divisor_nonzero)
  have "distributeLines_checked lines shape = Some (distributeLines lines shape)"
    by (simp add: distributeLines_checked_def distributeLines_def Let_def sp
        checked_div_nonzero two_nonzero distribute_map_checked_eq half_height_nonzero)
  moreover have "length lines = 1 \<longrightarrow>
        distribute_spacing_checked lines shape = Some (num 0)
        \<and> checked_div (availableHeight_of shape - totalTextHeight lines)
                       (spacing_divisor (length lines)) = None"
    using spacing_divisor_one by (simp add: distribute_spacing_checked_def checked_div_def)
  ultimately show ?thesis by blast
qed

theorem distributeLines_never_divides_by_zero_witness:
  "length [defaultLine] = 1
   \<and> distributeLines_checked [defaultLine] Circle = Some (distributeLines [defaultLine] Circle)
   \<and> distribute_spacing_checked [defaultLine] Circle = Some (num 0)
   \<and> checked_div (availableHeight_of Circle - totalTextHeight [defaultLine])
                  (spacing_divisor (length [defaultLine])) = None
   \<and> map yPosition (distributeLines [defaultLine] Circle) = [Fin (- 6192449487634433) (- 46)]
   \<and> distributeLines_checked three_lines Circle = Some (distributeLines three_lines Circle)"
proof -
  have one: "length [defaultLine] = 1" by simp
  have pos: "map yPosition (distributeLines [defaultLine] Circle)
             = [Fin (- 6192449487634433) (- 46)]"
    by code_simp
  from one pos
       distributeLines_never_divides_by_zero[of "[defaultLine]" Circle]
       distributeLines_never_divides_by_zero[of three_lines Circle]
  show ?thesis by blast
qed

section \<open>Lines outside the safe zone\<close>

lemma outside_from_nonempty:
  "j \<in> set (outside_from shape k ls)
   \<Longrightarrow> k \<le> j \<and> j < k + length ls \<and> text (ls ! (j - k)) \<noteq> []"
proof (induction ls arbitrary: k)
  case Nil
  then show ?case by simp
next
  case (Cons l ls)
  show ?case
  proof (cases "j \<in> set (outside_from shape (k + 1) ls)")
    case True
    from Cons.IH[OF this] have "k + 1 \<le> j" "j < k + 1 + length ls"
      "text (ls ! (j - (k + 1))) \<noteq> []" by simp_all
    moreover from \<open>k + 1 \<le> j\<close> have "(l # ls) ! (j - k) = ls ! (j - (k + 1))"
      by (simp add: nth_Cons')
    ultimately show ?thesis by simp
  next
    case False
    with Cons.prems have "j = k \<and> \<not> isTextWithinSafeZone (text l) l shape"
      by (auto split: if_splits)
    then show ?thesis by (auto simp: isTextWithinSafeZone_def)
  qed
qed

text \<open>
  Claim C10. A line with empty text is always within the safe zone:
  \<open>isTextWithinSafeZone\<close> returns true for the empty text whatever the line and the
  shape, and \<open>getLinesOutsideSafeZone\<close> never reports the index of a line whose text is
  empty, wherever that line is.
\<close>

theorem empty_text_within_safe_zone:
  "isTextWithinSafeZone [] line shape
   \<and> (i < length lines \<and> text (lines ! i) = []
        \<longrightarrow> i \<notin> set (getLinesOutsideSafeZone lines shape))"
  using outside_from_nonempty[of i shape 0 lines]
  by (auto simp: isTextWithinSafeZone_def getLinesOutsideSafeZone_def)

theorem empty_text_within_safe_zone_witness:
  "1 < length far_lines \<and> text (far_lines ! 1) = []
   \<and> isTextWithinSafeZone [] (far_lines ! 1) Rectangle
   \<and> 1 \<notin> set (getLinesOutsideSafeZone far_lines Rectangle)
   \<and> isOutsideSafeZone (far_lines ! 1) Rectangle
   \<and> getLinesOutsideSafeZone far_lines Rectangle = [0]"
proof -
  have prem: "1 < length far_lines \<and> text (far_lines ! 1) = []"
    by (simp add: far_lines_def defaultLine_def)
  have "isOutsideSafeZone (far_lines ! 1) Rectangle"
       "getLinesOutsideSafeZone far_lines Rectangle = [0]"
    by code_simp+
  with prem empty_text_within_safe_zone[of "far_lines ! 1" Rectangle 1 far_lines]
  show ?thesis by blast
qed

section \<open>Collisions\<close>

lemma lines_collide_sym: "lines_collide a b = lines_collide b a"
  unfolding lines_collide_def Let_def
  by (simp only:
      abs_diff_commute[of "or_else (yPosition a) (num 0)" "or_else (yPosition b) (num 0)"]
      abs_diff_commute[of "or_else (xPosition a) (num 0)" "or_else (xPosition b) (num 0)"]
      plus_number_commute[of "or_else (fontSize a) (num 16)" "or_else (fontSize b) (num 16)"]
      plus_number_commute[of
        "num (int (length (text a))) * or_else (fontSize a) (num 16) * dec 6 1"
        "num (int (length (text b))) * or_else (fontSize b) (num 16) * dec 6 1"])

lemma collides_with_later_iff:
  "collides_with_later a xs \<longleftrightarrow> (\<exists>b \<in> set xs. lines_collide a b)"
  by (induction xs) auto

text \<open>A colliding pair in \<open>a\<close> and \<open>M\<close> either involves \<open>a\<close> or lies within \<open>M\<close>.\<close>

lemma pair_in_add_mset:
  "(\<exists>x y. {#x, y#} \<subseteq># add_mset a M \<and> lines_collide x y)
   \<longleftrightarrow> (\<exists>b \<in># M. lines_collide a b) \<or> (\<exists>x y. {#x, y#} \<subseteq># M \<and> lines_collide x y)"
proof
  assume "\<exists>x y. {#x, y#} \<subseteq># add_mset a M \<and> lines_collide x y"
  then obtain x y where sub: "{#x, y#} \<subseteq># add_mset a M" and c: "lines_collide x y"
    by blast
  show "(\<exists>b \<in># M. lines_collide a b) \<or> (\<exists>x y. {#x, y#} \<subseteq># M \<and> lines_collide x y)"
  proof (cases "x = a \<or> y = a")
    case True
    then show ?thesis
    proof
      assume "x = a"
      with sub have "y \<in># M" by simp
      with c \<open>x = a\<close> show ?thesis by blast
    next
      assume "y = a"
      with sub have "add_mset a {#x#} \<subseteq># add_mset a M" by (simp add: add_mset_commute)
      then have "x \<in># M" by simp
      moreover from c \<open>y = a\<close> have "lines_collide a x" by (simp add: lines_collide_sym)
      ultimately show ?thesis by blast
    qed
  next
    case False
    then have "{#x, y#} - {#a#} = {#x, y#}" by simp
    moreover from sub have "{#x, y#} - {#a#} \<subseteq># M"
      by (simp add: subset_eq_diff_conv)
    ultimately have "{#x, y#} \<subseteq># M" by simp
    with c show ?thesis by blast
  qed
next
  assume "(\<exists>b \<in># M. lines_collide a b) \<or> (\<exists>x y. {#x, y#} \<subseteq># M \<and> lines_collide x y)"
  then show "\<exists>x y. {#x, y#} \<subseteq># add_mset a M \<and> lines_collide x y"
  proof
    assume "\<exists>b \<in># M. lines_collide a b"
    then obtain b where "b \<in># M" "lines_collide a b" by blast
    then have "{#a, b#} \<subseteq># add_mset a M" by simp
    with \<open>lines_collide a b\<close> show ?thesis by blast
  next
    assume "\<exists>x y. {#x, y#} \<subseteq># M \<and> lines_collide x y"
    then obtain x y where "{#x, y#} \<subseteq># M" "lines_collide x y" by blast
    moreover have "M \<subseteq># add_mset a M" by simp
    ultimately have "{#x, y#} \<subseteq># add_mset a M \<and> lines_collide x y"
      using subset_mset.order_trans by blast
    then show ?thesis by blast
  qed
qed

text \<open>The scan finds a collision exactly when some two entries of the list collide.\<close>

lemma collision_scan_iff:
  "collision_scan xs \<longleftrightarrow> (\<exists>x y. {#x, y#} \<subseteq># mset xs \<and> lines_collide x y)"
proof (induction xs)
  case Nil
  show ?case by simp
next
  case (Cons a xs)
  have "collision_scan (a # xs)
        \<longleftrightarrow> (\<exists>b \<in># mset xs. lines_collide a b) \<or> collision_scan xs"
    by (simp add: collides_with_later_iff)
  also have "\<dots> \<longleftrightarrow> (\<exists>x y. {#x, y#} \<subseteq># add_mset a (mset xs) \<and> lines_collide x y)"
    unfolding Cons.IH by (rule pair_in_add_mset[symmetric])
  finally show ?case by simp
qed

lemma detectLineCollisions_scan: "detectLineCollisions xs shape = collision_scan xs"
proof (cases xs)
  case Nil
  then show ?thesis by (simp add: detectLineCollisions_def)
next
  case (Cons a ys)
  then show ?thesis by (cases ys) (simp_all add: detectLineCollisions_def)
qed

text \<open>
  Claim C7. \<open>detectLineCollisions\<close> does not depend on the order of its input: two
  lists holding the same lines, each as many times, give the same answer, for every
  shape.
\<close>

theorem detectLineCollisions_order_independent:
  assumes "mset reordered = mset lines"
  shows "detectLineCollisions reordered shape = detectLineCollisions lines shape"
  using assms by (simp add: detectLineCollisions_scan collision_scan_iff)

theorem detectLineCollisions_order_independent_witness:
  "mset stacked_lines_reordered = mset stacked_lines
   \<and> stacked_lines_reordered \<noteq> stacked_lines
   \<and> detectLineCollisions stacked_lines Rectangle
   \<and> detectLineCollisions stacked_lines_reordered Rectangle
        = detectLineCollisions stacked_lines Rectangle"
proof -
  have same: "mset stacked_lines_reordered = mset stacked_lines"
    by (simp add: stacked_lines_def stacked_lines_reordered_def)
  have other: "stacked_lines_reordered \<noteq> stacked_lines"
    by (simp add: stacked_lines_def stacked_lines_reordered_def defaultLine_def)
  have hit: "detectLineCollisions stacked_lines Rectangle" by code_simp
  from same other hit detectLineCollisions_order_independent[OF same, of Rectangle]
  show ?thesis by blast
qed

section \<open>Enforcing the safe zone\<close>

text \<open>
  On a rectangle or a square each coordinate is clamped with \<open>Math.min\<close> and
  \<open>Math.max\<close>, which return one of their arguments: the clamped line is inside the
  safe zone and clamping it again changes nothing.
\<close>

lemma bounds_facts:
  "\<not> flt (num 100 - MARGIN_PERCENT) (num 100 - MARGIN_PERCENT)"
  "\<not> flt (num 100 - MARGIN_PERCENT) (- (num 100 - MARGIN_PERCENT))"
  "\<not> flt (- (num 100 - MARGIN_PERCENT)) (- (num 100 - MARGIN_PERCENT))"
  "\<not> flt (num 100 - MARGIN_PERCENT) (num 0)"
  "\<not> flt (num 0) (- (num 100 - MARGIN_PERCENT))"
  "\<not> falsy (num 100 - MARGIN_PERCENT)"
  "\<not> falsy (- (num 100 - MARGIN_PERCENT))"
  "num 100 - MARGIN_PERCENT \<noteq> NaN"
  "- (num 100 - MARGIN_PERCENT) \<noteq> NaN"
  "falsy (num 0)"
  by code_simp+

lemma or_else_cases: "or_else v (num 0) = num 0 \<or> (or_else v (num 0) = v \<and> \<not> falsy v)"
  by (simp add: or_else_def)

lemma safe_clamp_cases:
  "safe_clamp v = num 100 - MARGIN_PERCENT
   \<or> safe_clamp v = - (num 100 - MARGIN_PERCENT)
   \<or> safe_clamp v = num 0
   \<or> (safe_clamp v = v \<and> \<not> falsy v \<and> \<not> flt v (- (num 100 - MARGIN_PERCENT))
        \<and> \<not> flt (num 100 - MARGIN_PERCENT) v)"
  using or_else_cases[of v] bounds_facts
  by (cases "v = NaN") (auto simp: Math_min_def Math_max_def)

lemma safe_clamp_inside:
  "\<not> flt (num 100 - MARGIN_PERCENT) (or_else (safe_clamp v) (num 0))
   \<and> \<not> flt (or_else (safe_clamp v) (num 0)) (- (num 100 - MARGIN_PERCENT))"
  using safe_clamp_cases[of v] bounds_facts by (auto simp: or_else_def)

lemma safe_clamp_idempotent: "safe_clamp (safe_clamp v) = safe_clamp v"
  using safe_clamp_cases[of v] bounds_facts
  by (auto simp: or_else_def Math_min_def Math_max_def)

lemma enforceSafeZone_rectangular_inside:
  "shape \<noteq> Circle \<Longrightarrow> \<not> isOutsideSafeZone (enforceSafeZone line shape) shape"
  using safe_clamp_inside[of "xPosition line"] safe_clamp_inside[of "yPosition line"]
  by (simp add: isOutsideSafeZone_def enforceSafeZone_def Let_def less_number_def)

lemma enforceSafeZone_rectangular_idempotent:
  "shape \<noteq> Circle
   \<Longrightarrow> enforceSafeZone (enforceSafeZone line shape) shape = enforceSafeZone line shape"
  using safe_clamp_idempotent[of "xPosition line"] safe_clamp_idempotent[of "yPosition line"]
  by (simp add: enforceSafeZone_def Let_def)

text \<open>
  Claim C1. The claim is that a line returned by \<open>enforceSafeZone\<close> is never reported
  by \<open>isOutsideSafeZone\<close>. On a circle the returned position is the rounded product of
  the old position and a rounded ratio, and its rounded distance from the centre can
  exceed the safe radius by one unit in the last place. For the line dragged to
  \<open>(99, 10)\<close> the safe radius is \<open>6837841552999970 * 2 ^ -46\<close>, the line is moved to
  \<open>(6803222853723023 * 2 ^ -46, 5497553821190321 * 2 ^ -49)\<close>, its distance from the
  centre is then computed as \<open>6837841552999971 * 2 ^ -46\<close>, and it is still reported as
  outside.
\<close>

theorem enforceSafeZone_circle_still_outside:
  "num 100 - MARGIN_PERCENT * Math_sqrt (num 2) = Fin 6837841552999970 (- 46)
   \<and> xPosition (enforceSafeZone dragged_line Circle) = Fin 6803222853723023 (- 46)
   \<and> yPosition (enforceSafeZone dragged_line Circle) = Fin 5497553821190321 (- 49)
   \<and> Math_sqrt (Math_pow2 (xPosition (enforceSafeZone dragged_line Circle))
                 + Math_pow2 (yPosition (enforceSafeZone dragged_line Circle)))
       = Fin 6837841552999971 (- 46)
   \<and> isOutsideSafeZone (enforceSafeZone dragged_line Circle) Circle"
  by code_simp

text \<open>
  Claim C2. The claim is that \<open>enforceSafeZone\<close> is idempotent. On a circle a second
  application moves the line dragged to \<open>(99, 10)\<close> again, because the first one left it
  one unit in the last place outside the safe radius.
\<close>

theorem enforceSafeZone_circle_not_idempotent:
  "enforceSafeZone (enforceSafeZone dragged_line Circle) Circle
     \<noteq> enforceSafeZone dragged_line Circle
   \<and> xPosition (enforceSafeZone (enforceSafeZone dragged_line Circle) Circle)
       = Fin 6803222853723022 (- 46)"
  by code_simp

section \<open>The sweep of curved text\<close>

text \<open>
  Claim C6. The claim is that the canvas routine sweeps a symmetric arc of total angle
  \<open>\<pi> * 0.8\<close>, split evenly over the characters. The routine of useStampDesigner.ts
  does split a symmetric arc evenly, from \<open>-arcLength / 2\<close> in steps of
  \<open>arcLength / textLength\<close>, but its \<open>arcLength\<close> is \<open>Math.PI * 1.2\<close>; the routine of
  \<open>TextPositioningService\<close> sweeps from \<open>-\<pi>/4\<close> to \<open>\<pi>/4\<close> for top text and from \<open>\<pi>/4\<close> to
  \<open>7\<pi>/4\<close> for bottom text. None of the three sweeps is \<open>Math.PI * 0.8\<close>.
\<close>

theorem renderCurvedText_sweep_is_not_four_fifths_pi:
  "hook_renderCurvedText [] two_letter_line (num 150) (num 150) (num 100) =
     [Save, Translate (num 150) (num 150),
      Save, Rotate (- (Math_PI * dec 12 1) / num 2),
      Translate (num 0) (- num 100), FillText ''A'' (num 0) (num 0), Restore,
      Save, Rotate (- (Math_PI * dec 12 1) / num 2 + Math_PI * dec 12 1 / num 2),
      Translate (num 0) (- num 100), FillText ''B'' (num 0) (num 0), Restore,
      Restore]
   \<and> hook_arcLength \<noteq> Math_PI * dec 8 1
   \<and> service_arcLength False = Math_PI / num 2
   \<and> service_arcLength False \<noteq> Math_PI * dec 8 1
   \<and> service_arcLength True \<noteq> Math_PI * dec 8 1"
  by code_simp

section \<open>Coordinates and millimetres\<close>

text \<open>
  Claim C8. \<open>toMillimeters\<close> divides by four and \<open>toCoord\<close> multiplies by four. The
  claim that converting to millimetres and back returns every finite value fails for
  the smallest positive number, \<open>2 ^ -1074\<close>: a quarter of it rounds to zero.
\<close>

theorem toCoord_toMillimeters_counterexample:
  "toCoord (toMillimeters (Fin 1 (- 1074))) \<noteq> Fin 1 (- 1074)"
  by code_simp

text \<open>
  Claim C8, amended. \<open>toMillimeters\<close> divides by four, \<open>toCoord\<close> multiplies by four,
  and the round trip returns \<open>v\<close> for zero and for every finite \<open>v\<close> of magnitude at least
  \<open>2 ^ -1020\<close>, that is, for every normal number \<open>m * 2 ^ e\<close> with \<open>e \<ge> -1072\<close>.
\<close>

theorem toCoord_toMillimeters_round_trip:
  assumes "(m = 0 \<and> e = - 1074)
           \<or> (2 ^ 52 \<le> \<bar>m\<bar> \<and> \<bar>m\<bar> < 2 ^ 53 \<and> - 1072 \<le> e \<and> e \<le> 971)"
  shows "toMillimeters (Fin m e) = Fin m e / num 4
         \<and> toCoord (Fin m e) = Fin m e * num 4
         \<and> toCoord (toMillimeters (Fin m e)) = Fin m e"
proof -
  have "toCoord (toMillimeters (Fin m e)) = Fin m e"
    using assms
  proof
    assume "m = 0 \<and> e = - 1074"
    then show ?thesis
      by (simp add: toCoord_def toMillimeters_def divide_number_def times_number_def
          num_4 to_number_def)
  next
    assume "2 ^ 52 \<le> \<bar>m\<bar> \<and> \<bar>m\<bar> < 2 ^ 53 \<and> - 1072 \<le> e \<and> e \<le> 971"
    then have m: "2 ^ 52 \<le> \<bar>m\<bar>" "\<bar>m\<bar> < 2 ^ 53" and e: "- 1072 \<le> e" "e \<le> 971"
      by simp_all
    have m0: "m \<noteq> 0" using m by auto
    have bl: "bitlen \<bar>m\<bar> = 53" by (rule bitlen_53[OF m])
    have bl4: "bitlen ((2::int) ^ 52) = 53" by (rule bitlen_53) simp_all
    have "fdiv_finite m e (2 ^ 52) (- 50) = to_number (m * 2 ^ 5) (e - 2 - int 5)"
    proof -
      have "\<bar>m\<bar> * 2 ^ 56 = (\<bar>m\<bar> * 2 ^ 4) * 2 ^ 52" by simp
      then have d: "(\<bar>m\<bar> * 2 ^ 56) div 2 ^ 52 = \<bar>m\<bar> * 2 ^ 4"
        and r: "(\<bar>m\<bar> * 2 ^ 56) mod 2 ^ 52 = 0" by simp_all
      have "sgn m * (2 * (\<bar>m\<bar> * 2 ^ 4)) = (sgn m * \<bar>m\<bar>) * 2 ^ 5" by simp
      also have "\<dots> = m * 2 ^ 5" by (simp add: mult_sgn_abs)
      finally have s: "sgn m * (2 * (\<bar>m\<bar> * 2 ^ 4)) = m * 2 ^ 5" .
      show ?thesis
        unfolding fdiv_finite_def Let_def
        by (simp add: bl bl4 d r s del: power_numeral)
    qed
    also have "\<dots> = Fin m (e - 2)"
      using e by (intro to_number_exact m) simp_all
    finally have quarter: "toMillimeters (Fin m e) = Fin m (e - 2)"
      using m0 by (simp add: toMillimeters_def divide_number_def num_4)
    have "toCoord (Fin m (e - 2)) = to_number (m * 2 ^ 52) (e - int 52)"
      by (simp add: toCoord_def times_number_def num_4)
    also have "\<dots> = Fin m e"
      using e by (intro to_number_exact m) simp_all
    finally show ?thesis by (simp add: quarter)
  qed
  then show ?thesis by (simp add: toMillimeters_def toCoord_def)
qed

theorem toCoord_toMillimeters_round_trip_witness:
  "num 98 = Fin 6896136929411072 (- 46)
   \<and> toMillimeters (num 98) = Fin 6896136929411072 (- 48)
   \<and> toCoord (toMillimeters (Fin 6896136929411072 (- 46))) = Fin 6896136929411072 (- 46)"
proof -
  have "num 98 = Fin 6896136929411072 (- 46)"
       "toMillimeters (num 98) = Fin 6896136929411072 (- 48)"
    by code_simp+
  moreover have "((6896136929411072::int) = 0 \<and> (- 46::int) = - 1074)
           \<or> (2 ^ 52 \<le> \<bar>6896136929411072::int\<bar> \<and> \<bar>6896136929411072::int\<bar> < 2 ^ 53
               \<and> - 1072 \<le> (- 46::int) \<and> (- 46::int) \<le> 971)"
    by simp
  from toCoord_toMillimeters_round_trip[OF this]
  have "toCoord (toMillimeters (Fin 6896136929411072 (- 46))) = Fin 6896136929411072 (- 46)"
    by blast
  ultimately show ?thesis by blast
qed

end
